theory Spec2Isabelle
  imports Main "HOL-Library.Word"
begin

section \<open>Layered configuration of the Elasticsearch output (pkg/esoutput/config.go)\<close>

subsection \<open>Optional-value fields\<close>

text \<open>
  The fields of \<open>Config\<close> are \<open>null.String\<close> and \<open>types.NullDuration\<close>: a value
  together with a \<open>Valid\<close> flag. Both are one record here, over the type of the value.
  A \<open>time.Duration\<close> is an \<open>int64\<close> count of nanoseconds. A Go \<open>error\<close> is kept as its
  message.
\<close>

record 'a nullable =
  Value :: 'a
  Valid :: bool

type_synonym null_String = "string nullable"
type_synonym Duration = "64 word"
type_synonym NullDuration = "Duration nullable"

datatype error = Error string

definition NewString :: "string \<Rightarrow> bool \<Rightarrow> null_String" where
  \<comment> \<open>\<open>null.NewString(s, valid)\<close>\<close>
  "NewString s valid = \<lparr>Value = s, Valid = valid\<rparr>"

definition StringFrom :: "string \<Rightarrow> null_String" where
  \<comment> \<open>\<open>null.StringFrom(s)\<close>\<close>
  "StringFrom s = NewString s True"

definition NullDurationFrom :: "Duration \<Rightarrow> NullDuration" where
  \<comment> \<open>\<open>types.NullDurationFrom(d)\<close>\<close>
  "NullDurationFrom d = \<lparr>Value = d, Valid = True\<rparr>"

definition Second :: Duration where
  \<comment> \<open>\<open>time.Second\<close>, in nanoseconds\<close>
  "Second = 1000000000"

definition defaultFlushPeriod :: Duration where
  "defaultFlushPeriod = Second"

subsection \<open>The configuration record\<close>

record Config =
  Url :: null_String
  CloudID :: null_String
  CACert :: null_String
  User :: null_String
  Password :: null_String
  FlushPeriod :: NullDuration

definition zeroString :: null_String where
  "zeroString = \<lparr>Value = [], Valid = False\<rparr>"

definition zeroDuration :: NullDuration where
  "zeroDuration = \<lparr>Value = 0, Valid = False\<rparr>"

definition zeroConfig :: Config where
  \<comment> \<open>the zero value of the struct: \<open>var c Config\<close>, \<open>Config{}\<close>\<close>
  "zeroConfig = \<lparr>Url = zeroString, CloudID = zeroString, CACert = zeroString,
     User = zeroString, Password = zeroString, FlushPeriod = zeroDuration\<rparr>"

definition NewConfig :: Config where
  "NewConfig = \<lparr>
     Url = StringFrom ''http://localhost:9200'',
     CloudID = NewString [] False,
     CACert = NewString [] False,
     User = NewString [] False,
     Password = NewString [] False,
     FlushPeriod = NullDurationFrom defaultFlushPeriod\<rparr>"

subsection \<open>Merging one configuration onto another\<close>

definition Apply :: "Config \<Rightarrow> Config \<Rightarrow> Config" where
  "Apply base applied =
    (let base = (if Valid (Url applied) then base\<lparr>Url := Url applied\<rparr> else base);
         base = (if Valid (CloudID applied) then base\<lparr>CloudID := CloudID applied\<rparr> else base);
         base = (if Valid (CACert applied) then base\<lparr>CACert := CACert applied\<rparr> else base);
         base = (if Valid (User applied) then base\<lparr>User := User applied\<rparr> else base);
         base = (if Valid (Password applied) then base\<lparr>Password := Password applied\<rparr> else base);
         base = (if Valid (FlushPeriod applied)
                 then base\<lparr>FlushPeriod := FlushPeriod applied\<rparr> else base)
     in base)"

subsection \<open>The external collaborators\<close>

text \<open>
  Three functions of other packages decide what a text means: \<open>json.Unmarshal\<close> for the
  document, \<open>strvals.Parse\<close> for the inline argument and
  \<open>types.NullDuration.UnmarshalText\<close> for a duration. They are parameters of the model.
  \<^item> \<open>json_Unmarshal raw c\<close> decodes \<open>raw\<close> into the configuration \<open>c\<close> and returns
    the configuration as the call leaves it, and the error if there is one.
  \<^item> \<open>strvals_Parse arg\<close> returns an error or the mapping from keys to values; a value
    is a Go \<open>interface{}\<close>, of which the code only asks whether it is a string.
  \<^item> \<open>UnmarshalText d text\<close> is the method called on the receiver \<open>d\<close>: it returns the
    receiver as the call leaves it, and the error if there is one.
\<close>

datatype ival =
  VString string
  | VBool bool
  | VInt "64 word"
  | VNil
  | VMap "(string \<times> ival) list"
  | VList "ival list"

record externals =
  json_Unmarshal :: "string \<Rightarrow> Config \<Rightarrow> Config \<times> error option"
  strvals_Parse :: "string \<Rightarrow> error + (string \<rightharpoonup> ival)"
  UnmarshalText :: "NullDuration \<Rightarrow> string \<Rightarrow> NullDuration \<times> error option"

fun asString :: "ival option \<Rightarrow> string option" where
  \<comment> \<open>the type assertion \<open>params[key].(string)\<close>; a missing key gives the nil interface\<close>
  "asString (Some (VString v)) = Some v"
| "asString _ = None"

subsection \<open>The inline argument\<close>

definition ParseArg :: "externals \<Rightarrow> string \<Rightarrow> Config \<times> error option" where
  "ParseArg X arg =
    (let c = zeroConfig in
     case strvals_Parse X arg of
       Inl err \<Rightarrow> (c, Some err)
     | Inr params \<Rightarrow>
        (let c = (case asString (params ''url'') of
                    Some v \<Rightarrow> c\<lparr>Url := StringFrom v\<rparr> | None \<Rightarrow> c);
             c = (case asString (params ''cloud-id'') of
                    Some v \<Rightarrow> c\<lparr>CloudID := StringFrom v\<rparr> | None \<Rightarrow> c);
             c = (case asString (params ''caCertFile'') of
                    Some v \<Rightarrow> c\<lparr>CACert := StringFrom v\<rparr> | None \<Rightarrow> c);
             c = (case asString (params ''user'') of
                    Some v \<Rightarrow> c\<lparr>User := StringFrom v\<rparr> | None \<Rightarrow> c);
             c = (case asString (params ''password'') of
                    Some v \<Rightarrow> c\<lparr>Password := StringFrom v\<rparr> | None \<Rightarrow> c)
         in case asString (params ''flushPeriod'') of
              Some v \<Rightarrow>
                (case UnmarshalText X (FlushPeriod c) v of
                   (d, Some err) \<Rightarrow> (c\<lparr>FlushPeriod := d\<rparr>, Some err)
                 | (d, None) \<Rightarrow> (c\<lparr>FlushPeriod := d\<rparr>, None))
            | None \<Rightarrow> (c, None)))"

subsection \<open>The resolution\<close>

text \<open>
  \<open>GetConsolidatedConfig\<close> runs four blocks on the accumulator \<open>result\<close>, in this order:
  the document, the flush-period variable of the environment, the five string variables
  of the environment, and the inline argument. Each block is a function from the
  accumulator to the accumulator and the error, if any; \<open>andThen\<close> is the early
  \<open>return result, err\<close>. A \<open>json.RawMessage\<close> is a byte slice: \<open>None\<close> is the nil slice.
\<close>

definition documentLayer :: "externals \<Rightarrow> string option \<Rightarrow> Config \<Rightarrow> Config \<times> error option" where
  \<comment> \<open>\<open>if jsonRawConf != nil { ... }\<close>\<close>
  "documentLayer X jsonRawConf result =
    (case jsonRawConf of
       None \<Rightarrow> (result, None)
     | Some raw \<Rightarrow>
        (case json_Unmarshal X raw zeroConfig of
           (jsonConf, Some err) \<Rightarrow> (result, Some err)
         | (jsonConf, None) \<Rightarrow> (Apply result jsonConf, None)))"

definition envFlushPeriod :: "externals \<Rightarrow> (string \<rightharpoonup> string) \<Rightarrow> Config \<Rightarrow> Config \<times> error option" where
  \<comment> \<open>\<open>if flushPeriod, flushPeriodDefined := env[...]; flushPeriodDefined { ... }\<close>\<close>
  "envFlushPeriod X env result =
    (case env ''K6_ELASTICSEARCH_FLUSH_PERIOD'' of
       None \<Rightarrow> (result, None)
     | Some flushPeriod \<Rightarrow>
        (case UnmarshalText X (FlushPeriod result) flushPeriod of
           (d, Some err) \<Rightarrow> (result\<lparr>FlushPeriod := d\<rparr>, Some err)
         | (d, None) \<Rightarrow> (result\<lparr>FlushPeriod := d\<rparr>, None)))"

definition envStrings :: "(string \<rightharpoonup> string) \<Rightarrow> Config \<Rightarrow> Config" where
  \<comment> \<open>the five lookups that follow, none of which can fail\<close>
  "envStrings env result =
    (let result = (case env ''K6_ELASTICSEARCH_URL'' of
                     Some url \<Rightarrow> result\<lparr>Url := StringFrom url\<rparr> | None \<Rightarrow> result);
         result = (case env ''K6_ELASTICSEARCH_CLOUD_ID'' of
                     Some cloudId \<Rightarrow> result\<lparr>CloudID := StringFrom cloudId\<rparr> | None \<Rightarrow> result);
         result = (case env ''K6_ELASTICSEARCH_CA_CERT_FILE'' of
                     Some ca \<Rightarrow> result\<lparr>CACert := StringFrom ca\<rparr> | None \<Rightarrow> result);
         result = (case env ''K6_ELASTICSEARCH_USER'' of
                     Some user \<Rightarrow> result\<lparr>User := StringFrom user\<rparr> | None \<Rightarrow> result);
         result = (case env ''K6_ELASTICSEARCH_PASSWORD'' of
                     Some password \<Rightarrow> result\<lparr>Password := StringFrom password\<rparr>
                   | None \<Rightarrow> result)
     in result)"

definition argLayer :: "externals \<Rightarrow> string \<Rightarrow> Config \<Rightarrow> Config \<times> error option" where
  \<comment> \<open>\<open>if arg != "" { ... }\<close> and the final return\<close>
  "argLayer X arg result =
    (if arg \<noteq> [] then
       (case ParseArg X arg of
          (argConf, Some err) \<Rightarrow> (result, Some err)
        | (argConf, None) \<Rightarrow> (Apply result argConf, None))
     else (result, None))"

definition andThen ::
  "Config \<times> error option \<Rightarrow> (Config \<Rightarrow> Config \<times> error option) \<Rightarrow> Config \<times> error option" where
  "andThen r f = (case r of (result, Some err) \<Rightarrow> (result, Some err) | (result, None) \<Rightarrow> f result)"

definition GetConsolidatedConfig ::
  "externals \<Rightarrow> string option \<Rightarrow> (string \<rightharpoonup> string) \<Rightarrow> string \<Rightarrow> Config \<times> error option" where
  "GetConsolidatedConfig X jsonRawConf env arg =
    andThen (andThen (andThen (documentLayer X jsonRawConf NewConfig)
                              (envFlushPeriod X env))
                     (\<lambda>result. (envStrings env result, None)))
            (argLayer X arg)"

definition recognizedKeys :: "string set" where
  \<comment> \<open>the keys \<open>ParseArg\<close> looks up\<close>
  "recognizedKeys = {''url'', ''cloud-id'', ''caCertFile'', ''user'', ''password'', ''flushPeriod''}"

subsection \<open>An instance of the collaborators\<close>

text \<open>
  The general properties below hold for every \<open>externals\<close>. To evaluate the resolution on
  concrete texts, \<open>simpleLibs\<close> is a small instance in the manner of the three packages.
  It stands for them on the texts evaluated below only:
  \<^item> a duration is the empty text (which resets the receiver to the zero value without
    an error), decimal digits alone (a count of milliseconds) or decimal digits followed
    by one of the units ns, us, ms, s, m, h; any other text is an error and leaves the
    receiver as it was;
  \<^item> an inline argument is a comma-separated list of \<open>key=value\<close>, where a value is a
    boolean, null, an integer or else a string;
  \<^item> a document is an object whose members are strings, written without white space or
    escapes; a text that is not such an object, the empty text included, is an error and
    leaves the target as it was.
\<close>

definition isDigit :: "char \<Rightarrow> bool" where
  "isDigit c = (c \<in> set ''0123456789'')"

definition digitsVal :: "string \<Rightarrow> int" where
  "digitsVal ds = foldl (\<lambda>n c. 10 * n + (of_char c - 48)) 0 ds"

definition unitNanos :: "string \<Rightarrow> int option" where
  "unitNanos = map_of [(''ns'', 1), (''us'', 1000), (''ms'', 1000000), (''s'', 1000000000),
     (''m'', 60000000000), (''h'', 3600000000000)]"

definition parseDuration :: "string \<Rightarrow> Duration option" where
  "parseDuration s =
    (let ds = takeWhile isDigit s in
     if ds = [] then None
     else if dropWhile isDigit s = [] then
       (if digitsVal ds * 1000000 < 2 ^ 63
        then Some (word_of_int (digitsVal ds * 1000000)) else None)
     else case unitNanos (dropWhile isDigit s) of
            None \<Rightarrow> None
          | Some k \<Rightarrow>
              if digitsVal ds * k < 2 ^ 63 then Some (word_of_int (digitsVal ds * k)) else None)"

definition simple_UnmarshalText :: "NullDuration \<Rightarrow> string \<Rightarrow> NullDuration \<times> error option" where
  "simple_UnmarshalText d text =
    (if text = [] then (zeroDuration, None)
     else case parseDuration text of
            None \<Rightarrow> (d, Some (Error ''invalid duration''))
          | Some v \<Rightarrow> (\<lparr>Value = v, Valid = True\<rparr>, None))"

fun splitOn :: "char \<Rightarrow> string \<Rightarrow> string list" where
  "splitOn sep [] = [[]]"
| "splitOn sep (c # cs) =
     (if c = sep then [] # splitOn sep cs
      else case splitOn sep cs of [] \<Rightarrow> [[c]] | p # ps \<Rightarrow> (c # p) # ps)"

definition typedVal :: "string \<Rightarrow> ival" where
  "typedVal v =
    (if v = ''true'' then VBool True
     else if v = ''false'' then VBool False
     else if v = ''null'' then VNil
     else if v = ''0'' then VInt 0
     else if v \<noteq> [] \<and> hd v \<noteq> CHR ''0'' \<and> list_all isDigit v \<and> digitsVal v < 2 ^ 63
       then VInt (word_of_int (digitsVal v))
     else VString v)"

definition keyValue :: "string \<Rightarrow> string \<times> ival" where
  "keyValue p = (takeWhile (\<lambda>c. c \<noteq> CHR ''='') p, typedVal (drop 1 (dropWhile (\<lambda>c. c \<noteq> CHR ''='') p)))"

definition simple_Parse :: "string \<Rightarrow> error + (string \<rightharpoonup> ival)" where
  "simple_Parse arg =
    (if arg = [] then Inr Map.empty
     else if list_all (\<lambda>p. CHR ''='' \<in> set p) (splitOn CHR '','' arg)
       then Inr (map_of (rev (map keyValue (splitOn CHR '','' arg))))
     else Inl (Error ''key has no value''))"

datatype jmode = Open | First | BeforeKey | InKey | Colon | BeforeVal | InVal | After | Closed | Bad

type_synonym jstate = "jmode \<times> string \<times> string \<times> (string \<times> string) list"

definition quote :: char where
  "quote = CHR 0x22"

definition jstep :: "jstate \<Rightarrow> char \<Rightarrow> jstate" where
  \<comment> \<open>the state is the mode, the key read last, the token being read (reversed) and the
     members read so far (reversed)\<close>
  "jstep st c =
    (case st of (mode, k, t, ms) \<Rightarrow>
      (case mode of
         Open \<Rightarrow> if c = CHR ''{'' then (First, k, [], ms) else (Bad, k, t, ms)
       | First \<Rightarrow> if c = quote then (InKey, k, [], ms)
                  else if c = CHR ''}'' then (Closed, k, t, ms) else (Bad, k, t, ms)
       | BeforeKey \<Rightarrow> if c = quote then (InKey, k, [], ms) else (Bad, k, t, ms)
       | InKey \<Rightarrow> if c = quote then (Colon, rev t, [], ms) else (InKey, k, c # t, ms)
       | Colon \<Rightarrow> if c = CHR '':'' then (BeforeVal, k, t, ms) else (Bad, k, t, ms)
       | BeforeVal \<Rightarrow> if c = quote then (InVal, k, [], ms) else (Bad, k, t, ms)
       | InVal \<Rightarrow> if c = quote then (After, k, [], (k, rev t) # ms) else (InVal, k, c # t, ms)
       | After \<Rightarrow> if c = CHR '','' then (BeforeKey, k, t, ms)
                  else if c = CHR ''}'' then (Closed, k, t, ms) else (Bad, k, t, ms)
       | Closed \<Rightarrow> (Bad, k, t, ms)
       | Bad \<Rightarrow> (Bad, k, t, ms)))"

definition members :: "string \<Rightarrow> (string \<times> string) list option" where
  "members raw =
    (case foldl jstep (Open, [], [], []) raw of
       (mode, k, t, ms) \<Rightarrow> if mode = Closed then Some (rev ms) else None)"

definition setMember :: "Config \<times> error option \<Rightarrow> string \<times> string \<Rightarrow> Config \<times> error option" where
  "setMember r m =
    (case r of
       (c, Some err) \<Rightarrow> (c, Some err)
     | (c, None) \<Rightarrow>
        (case m of (k, v) \<Rightarrow>
          if k = ''url'' then (c\<lparr>Url := StringFrom v\<rparr>, None)
          else if k = ''cloud-id'' then (c\<lparr>CloudID := StringFrom v\<rparr>, None)
          else if k = ''caCertFile'' then (c\<lparr>CACert := StringFrom v\<rparr>, None)
          else if k = ''user'' then (c\<lparr>User := StringFrom v\<rparr>, None)
          else if k = ''password'' then (c\<lparr>Password := StringFrom v\<rparr>, None)
          else if k = ''flushPeriod'' then
            (case parseDuration v of
               None \<Rightarrow> (c, Some (Error ''invalid duration''))
             | Some d \<Rightarrow> (c\<lparr>FlushPeriod := NullDurationFrom d\<rparr>, None))
          else (c, None)))"

definition simple_Unmarshal :: "string \<Rightarrow> Config \<Rightarrow> Config \<times> error option" where
  "simple_Unmarshal raw c =
    (case members raw of
       None \<Rightarrow> (c, Some (Error ''invalid document''))
     | Some ms \<Rightarrow> foldl setMember (c, None) ms)"

definition simpleLibs :: externals where
  "simpleLibs = \<lparr>json_Unmarshal = simple_Unmarshal, strvals_Parse = simple_Parse,
     UnmarshalText = simple_UnmarshalText\<rparr>"

definition quoted :: "string \<Rightarrow> string" where
  "quoted s = quote # s @ [quote]"

definition urlDocument :: string where
  \<comment> \<open>the document with the one member url, of value http://doc:9200\<close>
  "urlDocument = ''{'' @ quoted ''url'' @ '':'' @ quoted ''http://doc:9200'' @ ''}''"

definition flushDocument :: string where
  \<comment> \<open>the document with the one member flushPeriod, of value 30s\<close>
  "flushDocument = ''{'' @ quoted ''flushPeriod'' @ '':'' @ quoted ''30s'' @ ''}''"

definition truncatedDocument :: string where
  \<comment> \<open>a document cut off after the colon\<close>
  "truncatedDocument = ''{'' @ quoted ''url'' @ '':''"

section \<open>Properties\<close>

subsection \<open>The default constructor\<close>

text \<open>
  C3. \<open>NewConfig\<close> is a constant: it takes no input and has no error result. Its endpoint
  URL is present and is the literal \<open>http://localhost:9200\<close>, its flush period is present
  and is one second (\<open>10^9\<close> nanoseconds), and the cloud identifier, the CA certificate
  path, the user name and the password are absent.
\<close>

theorem NewConfig_defaults:
  "Valid (Url NewConfig) \<and> Value (Url NewConfig) = ''http://localhost:9200''
   \<and> Valid (FlushPeriod NewConfig) \<and> Value (FlushPeriod NewConfig) = 1000000000
   \<and> \<not> Valid (CloudID NewConfig) \<and> \<not> Valid (CACert NewConfig)
   \<and> \<not> Valid (User NewConfig) \<and> \<not> Valid (Password NewConfig)"
  by (simp add: NewConfig_def StringFrom_def NewString_def NullDurationFrom_def
      defaultFlushPeriod_def Second_def)

subsection \<open>The merge\<close>

lemma Apply_fields:
  "Url (Apply b a) = (if Valid (Url a) then Url a else Url b)"
  "CloudID (Apply b a) = (if Valid (CloudID a) then CloudID a else CloudID b)"
  "CACert (Apply b a) = (if Valid (CACert a) then CACert a else CACert b)"
  "User (Apply b a) = (if Valid (User a) then User a else User b)"
  "Password (Apply b a) = (if Valid (Password a) then Password a else Password b)"
  "FlushPeriod (Apply b a) = (if Valid (FlushPeriod a) then FlushPeriod a else FlushPeriod b)"
  by (simp_all add: Apply_def Let_def)

text \<open>
  C1. \<open>Apply\<close> treats the six fields independently. Where the applied configuration's
  field is valid, the result's field is the applied one, value and validity both; where
  it is invalid, the result's field is the base's, whatever value the invalid field holds.
\<close>

theorem Apply_fieldwise:
  "(Valid (Url applied) \<longrightarrow> Url (Apply base applied) = Url applied)
   \<and> (\<not> Valid (Url applied) \<longrightarrow> Url (Apply base applied) = Url base)
   \<and> (Valid (CloudID applied) \<longrightarrow> CloudID (Apply base applied) = CloudID applied)
   \<and> (\<not> Valid (CloudID applied) \<longrightarrow> CloudID (Apply base applied) = CloudID base)
   \<and> (Valid (CACert applied) \<longrightarrow> CACert (Apply base applied) = CACert applied)
   \<and> (\<not> Valid (CACert applied) \<longrightarrow> CACert (Apply base applied) = CACert base)
   \<and> (Valid (User applied) \<longrightarrow> User (Apply base applied) = User applied)
   \<and> (\<not> Valid (User applied) \<longrightarrow> User (Apply base applied) = User base)
   \<and> (Valid (Password applied) \<longrightarrow> Password (Apply base applied) = Password applied)
   \<and> (\<not> Valid (Password applied) \<longrightarrow> Password (Apply base applied) = Password base)
   \<and> (Valid (FlushPeriod applied) \<longrightarrow> FlushPeriod (Apply base applied) = FlushPeriod applied)
   \<and> (\<not> Valid (FlushPeriod applied)
        \<longrightarrow> FlushPeriod (Apply base applied) = FlushPeriod base)"
  by (simp add: Apply_fields)

theorem Apply_fieldwise_witness:
  "Valid (Url (zeroConfig\<lparr>Url := StringFrom ''http://es:9200''\<rparr>))
   \<and> Url (Apply NewConfig (zeroConfig\<lparr>Url := StringFrom ''http://es:9200''\<rparr>))
       = StringFrom ''http://es:9200''
   \<and> \<not> Valid (FlushPeriod (zeroConfig\<lparr>Url := StringFrom ''http://es:9200''\<rparr>))
   \<and> FlushPeriod (Apply NewConfig (zeroConfig\<lparr>Url := StringFrom ''http://es:9200''\<rparr>))
       = NullDurationFrom Second"
  using Apply_fieldwise [of "zeroConfig\<lparr>Url := StringFrom ''http://es:9200''\<rparr>" NewConfig]
  by (simp add: zeroConfig_def zeroDuration_def StringFrom_def NewString_def NewConfig_def
      defaultFlushPeriod_def)

text \<open>
  C7. A configuration whose six fields are all invalid is a right identity of \<open>Apply\<close>:
  merging it onto any base returns the base.
\<close>

theorem Apply_all_absent:
  assumes "\<not> Valid (Url applied)" and "\<not> Valid (CloudID applied)"
    and "\<not> Valid (CACert applied)" and "\<not> Valid (User applied)"
    and "\<not> Valid (Password applied)" and "\<not> Valid (FlushPeriod applied)"
  shows "Apply base applied = base"
  using assms by (simp add: Apply_def)

theorem Apply_all_absent_witness:
  "\<not> Valid (Url zeroConfig) \<and> \<not> Valid (CloudID zeroConfig) \<and> \<not> Valid (CACert zeroConfig)
   \<and> \<not> Valid (User zeroConfig) \<and> \<not> Valid (Password zeroConfig)
   \<and> \<not> Valid (FlushPeriod zeroConfig) \<and> Apply NewConfig zeroConfig = NewConfig"
  using Apply_all_absent [of zeroConfig NewConfig]
  by (simp add: zeroConfig_def zeroString_def zeroDuration_def)

subsection \<open>The resolution, block by block\<close>

lemma andThen_simps:
  "andThen (c, None) f = f c"
  "andThen (c, Some err) f = (c, Some err)"
  by (simp_all add: andThen_def)

lemma andThen_pure: "andThen r (\<lambda>c. (c, None)) = r"
  by (cases r) (auto simp: andThen_def split: option.splits)

lemma andThen_ok:
  "andThen r f = (result, None) \<Longrightarrow> \<exists>c. r = (c, None) \<and> f c = (result, None)"
  by (cases r) (auto simp: andThen_def split: option.splits)

lemma documentLayer_ok:
  assumes "documentLayer X (Some raw) base = (acc, None)"
    and "json_Unmarshal X raw zeroConfig = (jsonConf, e)"
  shows "e = None" and "acc = Apply base jsonConf"
  using assms by (auto simp: documentLayer_def split: option.splits)

lemma envFlushPeriod_ok:
  assumes "envFlushPeriod X env acc = (r, None)"
  shows "Url r = Url acc" "CloudID r = CloudID acc" "CACert r = CACert acc"
    "User r = User acc" "Password r = Password acc"
    "FlushPeriod r = (case env ''K6_ELASTICSEARCH_FLUSH_PERIOD'' of
        None \<Rightarrow> FlushPeriod acc
      | Some t \<Rightarrow> fst (UnmarshalText X (FlushPeriod acc) t))"
  using assms by (auto simp: envFlushPeriod_def split: option.splits prod.splits)

lemma envStrings_empty: "envStrings Map.empty result = result"
  by (simp add: envStrings_def)

lemma envStrings_fields:
  "Url (envStrings env r) = (case env ''K6_ELASTICSEARCH_URL'' of Some v \<Rightarrow> StringFrom v | None \<Rightarrow> Url r)"
  "CloudID (envStrings env r) = (case env ''K6_ELASTICSEARCH_CLOUD_ID'' of Some v \<Rightarrow> StringFrom v | None \<Rightarrow> CloudID r)"
  "CACert (envStrings env r) = (case env ''K6_ELASTICSEARCH_CA_CERT_FILE'' of Some v \<Rightarrow> StringFrom v | None \<Rightarrow> CACert r)"
  "User (envStrings env r) = (case env ''K6_ELASTICSEARCH_USER'' of Some v \<Rightarrow> StringFrom v | None \<Rightarrow> User r)"
  "Password (envStrings env r) = (case env ''K6_ELASTICSEARCH_PASSWORD'' of Some v \<Rightarrow> StringFrom v | None \<Rightarrow> Password r)"
  "FlushPeriod (envStrings env r) = FlushPeriod r"
  by (simp_all add: envStrings_def Let_def split: option.splits)

lemma envStrings_eq:
  "envStrings env r =
      \<lparr>Url = (case env ''K6_ELASTICSEARCH_URL'' of
                 Some v \<Rightarrow> StringFrom v | None \<Rightarrow> Url r),
        CloudID = (case env ''K6_ELASTICSEARCH_CLOUD_ID'' of
                 Some v \<Rightarrow> StringFrom v | None \<Rightarrow> CloudID r),
        CACert = (case env ''K6_ELASTICSEARCH_CA_CERT_FILE'' of
                 Some v \<Rightarrow> StringFrom v | None \<Rightarrow> CACert r),
        User = (case env ''K6_ELASTICSEARCH_USER'' of
                 Some v \<Rightarrow> StringFrom v | None \<Rightarrow> User r),
        Password = (case env ''K6_ELASTICSEARCH_PASSWORD'' of
                 Some v \<Rightarrow> StringFrom v | None \<Rightarrow> Password r),
        FlushPeriod = FlushPeriod r\<rparr>"
  by (rule Config.equality) (simp_all add: envStrings_fields)

lemma argLayer_empty: "argLayer X [] result = (result, None)"
  by (simp add: argLayer_def)

lemma argLayer_ok:
  assumes "argLayer X arg r = (result, None)" and "arg \<noteq> []"
    and "ParseArg X arg = (argConf, e)"
  shows "e = None" and "result = Apply r argConf"
  using assms by (auto simp: argLayer_def split: option.splits)

lemma GetConsolidatedConfig_document_only:
  "GetConsolidatedConfig X jsonRawConf Map.empty [] = documentLayer X jsonRawConf NewConfig"
  by (cases "documentLayer X jsonRawConf NewConfig"; cases "snd (documentLayer X jsonRawConf NewConfig)")
     (simp_all add: GetConsolidatedConfig_def andThen_def envFlushPeriod_def envStrings_empty argLayer_empty)

lemma GetConsolidatedConfig_after_document:
  "documentLayer X jsonRawConf NewConfig = (acc, None) \<Longrightarrow>
   GetConsolidatedConfig X jsonRawConf env arg =
     andThen (andThen (envFlushPeriod X env acc) (\<lambda>result. (envStrings env result, None))) (argLayer X arg)"
  by (simp add: GetConsolidatedConfig_def andThen_simps)

lemma GetConsolidatedConfig_after_accumulator:
  assumes "GetConsolidatedConfig X jsonRawConf Map.empty [] = (acc, None)"
  shows "GetConsolidatedConfig X jsonRawConf env arg =
     andThen (andThen (envFlushPeriod X env acc) (\<lambda>result. (envStrings env result, None))) (argLayer X arg)"
  using assms
  by (simp add: GetConsolidatedConfig_document_only GetConsolidatedConfig_after_document)

lemma GetConsolidatedConfig_before_inline:
  "GetConsolidatedConfig X jsonRawConf env arg =
     andThen (GetConsolidatedConfig X jsonRawConf env []) (argLayer X arg)"
proof -
  have "argLayer X [] = (\<lambda>result. (result, None))"
    by (rule ext) (simp add: argLayer_empty)
  then show ?thesis
    by (simp add: GetConsolidatedConfig_def andThen_pure)
qed

lemma ParseArg_flushPeriod:
  assumes "strvals_Parse X arg = Inr params" and "asString (params ''flushPeriod'') = Some v"
    and "UnmarshalText X zeroDuration v = (d, e)"
  shows "snd (ParseArg X arg) = e" and "FlushPeriod (fst (ParseArg X arg)) = d"
  using assms
  by (cases e; simp add: ParseArg_def Let_def zeroConfig_def split: option.splits)+

lemma ParseArg_flushPeriod_not_string:
  assumes "strvals_Parse X arg = Inr params" and "asString (params ''flushPeriod'') = None"
  shows "snd (ParseArg X arg) = None" and "FlushPeriod (fst (ParseArg X arg)) = zeroDuration"
  using assms by (simp_all add: ParseArg_def Let_def zeroConfig_def split: option.splits)

lemma argLayer_flushPeriod_not_string:
  assumes "strvals_Parse X arg = Inr params" and "asString (params ''flushPeriod'') = None"
  shows "snd (argLayer X arg acc) = None"
    and "FlushPeriod (fst (argLayer X arg acc)) = FlushPeriod acc"
  using ParseArg_flushPeriod_not_string [OF assms]
  by (cases "ParseArg X arg"; simp add: argLayer_def Apply_fields zeroDuration_def)+

lemma ParseArg_update_json:
  "ParseArg (X\<lparr>json_Unmarshal := f\<rparr>) arg = ParseArg X arg"
  by (simp add: ParseArg_def Let_def cong: option.case_cong sum.case_cong)

lemma ParseArg_params:
  assumes "strvals_Parse X arg = Inr params" and "strvals_Parse X arg' = Inr params'"
    and "params ''url'' = params' ''url''" and "params ''cloud-id'' = params' ''cloud-id''"
    and "params ''caCertFile'' = params' ''caCertFile''" and "params ''user'' = params' ''user''"
    and "params ''password'' = params' ''password''"
    and "params ''flushPeriod'' = params' ''flushPeriod''"
  shows "ParseArg X arg = ParseArg X arg'"
  using assms by (simp add: ParseArg_def)

lemma ParseArg_no_key:
  assumes "strvals_Parse X arg = Inr params"
    and "params ''url'' = None" and "params ''cloud-id'' = None"
    and "params ''caCertFile'' = None" and "params ''user'' = None"
    and "params ''password'' = None" and "params ''flushPeriod'' = None"
  shows "ParseArg X arg = (zeroConfig, None)"
  using assms by (simp add: ParseArg_def)

subsection \<open>The instance on concrete texts\<close>

lemma simple_truncated:
  "json_Unmarshal simpleLibs truncatedDocument zeroConfig = (zeroConfig, Some (Error ''invalid document''))"
  by code_simp

lemma simple_empty_object:
  "json_Unmarshal simpleLibs ''{}'' zeroConfig = (zeroConfig, None)"
  by code_simp

lemma simple_url_doc:
  "json_Unmarshal simpleLibs urlDocument zeroConfig
    = (zeroConfig\<lparr>Url := StringFrom ''http://doc:9200''\<rparr>, None)"
  by code_simp

lemma simple_flush_doc:
  "json_Unmarshal simpleLibs flushDocument zeroConfig
    = (zeroConfig\<lparr>FlushPeriod := NullDurationFrom 30000000000\<rparr>, None)"
  by code_simp

lemma simple_dur_5s:
  "UnmarshalText simpleLibs zeroDuration ''5s'' = (\<lparr>Value = 5000000000, Valid = True\<rparr>, None)"
  by code_simp

lemma simple_dur_bad:
  "UnmarshalText simpleLibs zeroDuration ''notaduration''
    = (zeroDuration, Some (Error ''invalid duration''))"
  by code_simp

lemma simple_dur_2m:
  "UnmarshalText simpleLibs (NullDurationFrom 30000000000) ''2m''
    = (NullDurationFrom 120000000000, None)"
  by code_simp

lemma simple_dur_abc:
  "UnmarshalText simpleLibs (NullDurationFrom Second) ''abc''
    = (NullDurationFrom Second, Some (Error ''invalid duration''))"
  by code_simp

lemma simple_Parse_password:
  "strvals_Parse simpleLibs ''password=secret'' = Inr [''password'' \<mapsto> VString ''secret'']"
  by (simp add: simpleLibs_def simple_Parse_def keyValue_def typedVal_def isDigit_def)

lemma simple_Parse_flush5s:
  "strvals_Parse simpleLibs ''flushPeriod=5s'' = Inr [''flushPeriod'' \<mapsto> VString ''5s'']"
  by (simp add: simpleLibs_def simple_Parse_def keyValue_def typedVal_def isDigit_def)

lemma simple_Parse_flushbad:
  "strvals_Parse simpleLibs ''flushPeriod=notaduration''
    = Inr [''flushPeriod'' \<mapsto> VString ''notaduration'']"
  by (simp add: simpleLibs_def simple_Parse_def keyValue_def typedVal_def isDigit_def)

lemma simple_Parse_user_foo:
  "strvals_Parse simpleLibs ''user=u,foo=bar'' = Inr [''user'' \<mapsto> VString ''u'', ''foo'' \<mapsto> VString ''bar'']"
  by (simp add: simpleLibs_def simple_Parse_def keyValue_def typedVal_def isDigit_def)

lemma simple_Parse_user:
  "strvals_Parse simpleLibs ''user=u'' = Inr [''user'' \<mapsto> VString ''u'']"
  by (simp add: simpleLibs_def simple_Parse_def keyValue_def typedVal_def isDigit_def)

lemma simple_Parse_foo:
  "strvals_Parse simpleLibs ''foo=bar'' = Inr [''foo'' \<mapsto> VString ''bar'']"
  by (simp add: simpleLibs_def simple_Parse_def keyValue_def typedVal_def isDigit_def)

lemma simple_acc_none:
  "GetConsolidatedConfig simpleLibs None Map.empty [] = (NewConfig, None)"
  by code_simp

lemma simple_acc_doc_env:
  "GetConsolidatedConfig simpleLibs (Some urlDocument) [''K6_ELASTICSEARCH_USER'' \<mapsto> ''envuser''] []
    = (NewConfig\<lparr>Url := StringFrom ''http://doc:9200'', User := StringFrom ''envuser''\<rparr>, None)"
  by code_simp

lemma simple_acc_flush_doc:
  "GetConsolidatedConfig simpleLibs (Some flushDocument) Map.empty []
    = (NewConfig\<lparr>FlushPeriod := NullDurationFrom 30000000000\<rparr>, None)"
  by code_simp

subsection \<open>The document layer\<close>

text \<open>
  C4. When the document is not nil and the decoder rejects it, \<open>GetConsolidatedConfig\<close>
  returns the decoder's error together with the default configuration \<open>NewConfig\<close>,
  whatever the decoder left in its target, and whatever the environment and the inline
  argument are: no later layer takes part.
\<close>

theorem malformed_document:
  assumes "json_Unmarshal X raw zeroConfig = (jsonConf, Some err)"
  shows "GetConsolidatedConfig X (Some raw) env arg = (NewConfig, Some err)"
  using assms by (simp add: GetConsolidatedConfig_def documentLayer_def andThen_simps)

theorem malformed_document_witness:
  "json_Unmarshal simpleLibs truncatedDocument zeroConfig = (zeroConfig, Some (Error ''invalid document''))
   \<and> GetConsolidatedConfig simpleLibs (Some truncatedDocument)
        [''K6_ELASTICSEARCH_USER'' \<mapsto> ''envuser''] ''password=secret''
       = (NewConfig, Some (Error ''invalid document''))"
  using malformed_document [OF simple_truncated] simple_truncated by simp

text \<open>
  C8, as the code has it. The document layer is skipped when the raw document is absent,
  that is the nil slice: the resolution then runs the environment and inline layers from
  the defaults, never consults the decoder, and with nothing in the later layers returns
  the defaults and no error; it is the resolution of a document that the decoder reads
  as no field at all. A document that is not nil, the empty one included, is handed to
  the decoder.
\<close>

theorem absent_document_skipped:
  "GetConsolidatedConfig X None env arg =
     andThen (andThen (envFlushPeriod X env NewConfig) (\<lambda>result. (envStrings env result, None)))
       (argLayer X arg)
   \<and> GetConsolidatedConfig (X\<lparr>json_Unmarshal := f\<rparr>) None env arg
       = GetConsolidatedConfig X None env arg
   \<and> GetConsolidatedConfig X None Map.empty [] = (NewConfig, None)
   \<and> (json_Unmarshal X raw zeroConfig = (zeroConfig, None) \<longrightarrow>
        GetConsolidatedConfig X (Some raw) env arg = GetConsolidatedConfig X None env arg)"
proof (intro conjI impI)
  have d: "documentLayer Y None NewConfig = (NewConfig, None)" for Y
    by (simp add: documentLayer_def)
  show "GetConsolidatedConfig X None env arg =
     andThen (andThen (envFlushPeriod X env NewConfig) (\<lambda>result. (envStrings env result, None)))
       (argLayer X arg)"
    by (rule GetConsolidatedConfig_after_document [OF d])
  have "envFlushPeriod (X\<lparr>json_Unmarshal := f\<rparr>) env = envFlushPeriod X env"
    by (rule ext) (simp add: envFlushPeriod_def cong: option.case_cong)
  moreover have "argLayer (X\<lparr>json_Unmarshal := f\<rparr>) arg = argLayer X arg"
    by (rule ext) (simp add: argLayer_def ParseArg_update_json)
  ultimately show "GetConsolidatedConfig (X\<lparr>json_Unmarshal := f\<rparr>) None env arg
       = GetConsolidatedConfig X None env arg"
    by (simp add: GetConsolidatedConfig_after_document [OF d])
  show "GetConsolidatedConfig X None Map.empty [] = (NewConfig, None)"
    by (simp add: GetConsolidatedConfig_document_only d)
next
  assume "json_Unmarshal X raw zeroConfig = (zeroConfig, None)"
  then have "documentLayer X (Some raw) NewConfig = documentLayer X None NewConfig"
    by (simp add: documentLayer_def Apply_def zeroConfig_def zeroString_def zeroDuration_def)
  then show "GetConsolidatedConfig X (Some raw) env arg = GetConsolidatedConfig X None env arg"
    by (simp add: GetConsolidatedConfig_def)
qed

theorem absent_document_skipped_witness:
  "json_Unmarshal simpleLibs ''{}'' zeroConfig = (zeroConfig, None)
   \<and> GetConsolidatedConfig simpleLibs (Some ''{}'') [''K6_ELASTICSEARCH_USER'' \<mapsto> ''envuser'']
        ''password=secret''
       = GetConsolidatedConfig simpleLibs None [''K6_ELASTICSEARCH_USER'' \<mapsto> ''envuser'']
        ''password=secret''
   \<and> GetConsolidatedConfig simpleLibs None Map.empty [] = (NewConfig, None)"
  using absent_document_skipped [where X = simpleLibs,
      THEN conjunct2, THEN conjunct2, THEN conjunct1]
    absent_document_skipped [where X = simpleLibs
      and env = "[''K6_ELASTICSEARCH_USER'' \<mapsto> ''envuser'']" and arg = "''password=secret''"
      and raw = "''{}''", THEN conjunct2, THEN conjunct2, THEN conjunct2,
      rule_format, OF simple_empty_object]
    simple_empty_object
  by simp

text \<open>
  The empty document is not skipped: it is not nil, so it is decoded, and a decoder that
  rejects the empty text (as \<open>json.Unmarshal\<close> does, and \<open>simpleLibs\<close> with it) makes the
  resolution fail, where the absent document gives the defaults.
\<close>

theorem empty_document_decoded:
  "GetConsolidatedConfig simpleLibs (Some []) Map.empty []
     = (NewConfig, Some (Error ''invalid document''))
   \<and> GetConsolidatedConfig simpleLibs None Map.empty [] = (NewConfig, None)"
  by code_simp

subsection \<open>The environment layer\<close>

text \<open>
  C10. The flush-period variable is read before the five string variables. The
  accumulator after the document layer is the configuration of the resolution with the
  empty environment and the empty argument. If \<open>K6_ELASTICSEARCH_FLUSH_PERIOD\<close> is present
  and \<open>UnmarshalText\<close>, called on that accumulator's flush period, rejects its text, the
  resolution returns an error, and the url, cloud-id, CA certificate, user and password
  it returns are those of that accumulator, whatever the environment holds for them and
  whatever the inline argument is. When the document layer succeeded, the error is
  that of \<open>UnmarshalText\<close> and the configuration is the accumulator with at most its flush
  period changed by the failed call.
\<close>

theorem env_flushPeriod_error_first:
  assumes env: "env ''K6_ELASTICSEARCH_FLUSH_PERIOD'' = Some t"
    and bad: "UnmarshalText X
        (FlushPeriod (fst (GetConsolidatedConfig X jsonRawConf Map.empty []))) t = (d, Some err)"
  shows "snd (GetConsolidatedConfig X jsonRawConf env arg) \<noteq> None
     \<and> Url (fst (GetConsolidatedConfig X jsonRawConf env arg))
         = Url (fst (GetConsolidatedConfig X jsonRawConf Map.empty []))
     \<and> CloudID (fst (GetConsolidatedConfig X jsonRawConf env arg))
         = CloudID (fst (GetConsolidatedConfig X jsonRawConf Map.empty []))
     \<and> CACert (fst (GetConsolidatedConfig X jsonRawConf env arg))
         = CACert (fst (GetConsolidatedConfig X jsonRawConf Map.empty []))
     \<and> User (fst (GetConsolidatedConfig X jsonRawConf env arg))
         = User (fst (GetConsolidatedConfig X jsonRawConf Map.empty []))
     \<and> Password (fst (GetConsolidatedConfig X jsonRawConf env arg))
         = Password (fst (GetConsolidatedConfig X jsonRawConf Map.empty []))
     \<and> (snd (GetConsolidatedConfig X jsonRawConf Map.empty []) = None \<longrightarrow>
          GetConsolidatedConfig X jsonRawConf env arg
            = ((fst (GetConsolidatedConfig X jsonRawConf Map.empty []))\<lparr>FlushPeriod := d\<rparr>,
               Some err))"
proof -
  obtain acc e where a: "documentLayer X jsonRawConf NewConfig = (acc, e)"
    by (cases "documentLayer X jsonRawConf NewConfig")
  have f: "envFlushPeriod X env acc = (acc\<lparr>FlushPeriod := d\<rparr>, Some err)"
    using env bad a by (simp add: envFlushPeriod_def GetConsolidatedConfig_document_only)
  show ?thesis
  proof (cases e)
    case None
    then show ?thesis
      using a f
      by (simp add: GetConsolidatedConfig_document_only
          GetConsolidatedConfig_after_document [of X jsonRawConf acc] andThen_simps)
  next
    case (Some e')
    then show ?thesis
      using a by (simp add: GetConsolidatedConfig_def andThen_simps)
  qed
qed

theorem env_flushPeriod_error_first_witness:
  "[''K6_ELASTICSEARCH_FLUSH_PERIOD'' \<mapsto> ''abc'', ''K6_ELASTICSEARCH_URL'' \<mapsto> ''http://env:9200'',
         ''K6_ELASTICSEARCH_USER'' \<mapsto> ''envuser''] ''K6_ELASTICSEARCH_FLUSH_PERIOD'' = Some ''abc''
   \<and> GetConsolidatedConfig simpleLibs None Map.empty [] = (NewConfig, None)
   \<and> UnmarshalText simpleLibs (NullDurationFrom Second) ''abc''
       = (NullDurationFrom Second, Some (Error ''invalid duration''))
   \<and> GetConsolidatedConfig simpleLibs None
        [''K6_ELASTICSEARCH_FLUSH_PERIOD'' \<mapsto> ''abc'', ''K6_ELASTICSEARCH_URL'' \<mapsto> ''http://env:9200'',
         ''K6_ELASTICSEARCH_USER'' \<mapsto> ''envuser''] ''password=secret''
       = (NewConfig, Some (Error ''invalid duration''))"
proof -
  have e: "[''K6_ELASTICSEARCH_FLUSH_PERIOD'' \<mapsto> ''abc'', ''K6_ELASTICSEARCH_URL'' \<mapsto> ''http://env:9200'',
         ''K6_ELASTICSEARCH_USER'' \<mapsto> ''envuser''] ''K6_ELASTICSEARCH_FLUSH_PERIOD'' = Some ''abc''"
    by simp
  have d: "UnmarshalText simpleLibs
       (FlushPeriod (fst (GetConsolidatedConfig simpleLibs None Map.empty []))) ''abc''
       = (NullDurationFrom Second, Some (Error ''invalid duration''))"
    using simple_dur_abc by (simp add: simple_acc_none NewConfig_def defaultFlushPeriod_def)
  show ?thesis
    using env_flushPeriod_error_first [where env = "[''K6_ELASTICSEARCH_FLUSH_PERIOD'' \<mapsto> ''abc'',
        ''K6_ELASTICSEARCH_URL'' \<mapsto> ''http://env:9200'', ''K6_ELASTICSEARCH_USER'' \<mapsto> ''envuser'']"
        and arg = "''password=secret''", OF e d]
      simple_acc_none simple_dur_abc
    by (simp add: NewConfig_def defaultFlushPeriod_def)
qed

text \<open>
  C6, as the code has it. Let the document layer succeed with the accumulator \<open>acc\<close>, and
  let the flush-period variable be absent or hold a text that \<open>UnmarshalText\<close>, called on
  the accumulator's flush period, accepts. Then after the environment layer (the
  resolution with the empty argument) each of the five string fields is the present
  field of the variable's text as it is when its variable is present, and the
  accumulator's field when it is absent; the flush period is what \<open>UnmarshalText\<close>
  returned when the variable is present, and the accumulator's when it is absent. The
  accumulator's flush period is the document's when the document supplies one, and one
  second when there is no document.
\<close>

theorem environment_layer:
  assumes acc: "GetConsolidatedConfig X jsonRawConf Map.empty [] = (acc, None)"
    and fl: "case env ''K6_ELASTICSEARCH_FLUSH_PERIOD'' of
               None \<Rightarrow> d = FlushPeriod acc
             | Some t \<Rightarrow> UnmarshalText X (FlushPeriod acc) t = (d, None)"
  shows "GetConsolidatedConfig X jsonRawConf env [] =
      (\<lparr>Url = (case env ''K6_ELASTICSEARCH_URL'' of
                 Some v \<Rightarrow> StringFrom v | None \<Rightarrow> Url acc),
        CloudID = (case env ''K6_ELASTICSEARCH_CLOUD_ID'' of
                 Some v \<Rightarrow> StringFrom v | None \<Rightarrow> CloudID acc),
        CACert = (case env ''K6_ELASTICSEARCH_CA_CERT_FILE'' of
                 Some v \<Rightarrow> StringFrom v | None \<Rightarrow> CACert acc),
        User = (case env ''K6_ELASTICSEARCH_USER'' of
                 Some v \<Rightarrow> StringFrom v | None \<Rightarrow> User acc),
        Password = (case env ''K6_ELASTICSEARCH_PASSWORD'' of
                 Some v \<Rightarrow> StringFrom v | None \<Rightarrow> Password acc),
        FlushPeriod = d\<rparr>, None)
     \<and> (\<forall>raw jsonConf. jsonRawConf = Some raw \<and> json_Unmarshal X raw zeroConfig = (jsonConf, None)
            \<and> Valid (FlushPeriod jsonConf) \<longrightarrow> FlushPeriod acc = FlushPeriod jsonConf)
     \<and> (jsonRawConf = None \<longrightarrow> FlushPeriod acc = NullDurationFrom Second)"
proof (intro conjI allI impI)
  have e: "envFlushPeriod X env acc = (acc\<lparr>FlushPeriod := d\<rparr>, None)"
    using fl by (auto simp: envFlushPeriod_def split: option.splits)
  show "GetConsolidatedConfig X jsonRawConf env [] =
      (\<lparr>Url = (case env ''K6_ELASTICSEARCH_URL'' of
                 Some v \<Rightarrow> StringFrom v | None \<Rightarrow> Url acc),
        CloudID = (case env ''K6_ELASTICSEARCH_CLOUD_ID'' of
                 Some v \<Rightarrow> StringFrom v | None \<Rightarrow> CloudID acc),
        CACert = (case env ''K6_ELASTICSEARCH_CA_CERT_FILE'' of
                 Some v \<Rightarrow> StringFrom v | None \<Rightarrow> CACert acc),
        User = (case env ''K6_ELASTICSEARCH_USER'' of
                 Some v \<Rightarrow> StringFrom v | None \<Rightarrow> User acc),
        Password = (case env ''K6_ELASTICSEARCH_PASSWORD'' of
                 Some v \<Rightarrow> StringFrom v | None \<Rightarrow> Password acc),
        FlushPeriod = d\<rparr>, None)"
    by (simp add: GetConsolidatedConfig_after_accumulator [OF acc] e andThen_simps
        argLayer_empty envStrings_eq cong: option.case_cong)
next
  fix raw jsonConf
  assume "jsonRawConf = Some raw \<and> json_Unmarshal X raw zeroConfig = (jsonConf, None)
            \<and> Valid (FlushPeriod jsonConf)"
  then show "FlushPeriod acc = FlushPeriod jsonConf"
    using acc by (auto simp: GetConsolidatedConfig_document_only documentLayer_def Apply_fields)
next
  assume "jsonRawConf = None"
  then show "FlushPeriod acc = NullDurationFrom Second"
    using acc
    by (auto simp: GetConsolidatedConfig_document_only documentLayer_def NewConfig_def
        defaultFlushPeriod_def)
qed

theorem environment_layer_witness:
  "GetConsolidatedConfig simpleLibs (Some flushDocument) Map.empty []
     = (NewConfig\<lparr>FlushPeriod := NullDurationFrom 30000000000\<rparr>, None)
   \<and> UnmarshalText simpleLibs (NullDurationFrom 30000000000) ''2m''
       = (NullDurationFrom 120000000000, None)
   \<and> GetConsolidatedConfig simpleLibs (Some flushDocument)
        [''K6_ELASTICSEARCH_FLUSH_PERIOD'' \<mapsto> ''2m'', ''K6_ELASTICSEARCH_URL'' \<mapsto> ''http://env:9200''] []
       = (\<lparr>Url = StringFrom ''http://env:9200'', CloudID = NewString [] False,
           CACert = NewString [] False, User = NewString [] False,
           Password = NewString [] False, FlushPeriod = NullDurationFrom 120000000000\<rparr>, None)
   \<and> json_Unmarshal simpleLibs flushDocument zeroConfig
       = (zeroConfig\<lparr>FlushPeriod := NullDurationFrom 30000000000\<rparr>, None)
   \<and> Valid (FlushPeriod (zeroConfig\<lparr>FlushPeriod := NullDurationFrom 30000000000\<rparr>))
   \<and> GetConsolidatedConfig simpleLibs None Map.empty [] = (NewConfig, None)
   \<and> FlushPeriod NewConfig = NullDurationFrom Second"
proof -
  have fl: "case [''K6_ELASTICSEARCH_FLUSH_PERIOD'' \<mapsto> ''2m'',
                  ''K6_ELASTICSEARCH_URL'' \<mapsto> ''http://env:9200''] ''K6_ELASTICSEARCH_FLUSH_PERIOD'' of
              None \<Rightarrow> NullDurationFrom 120000000000
                = FlushPeriod (NewConfig\<lparr>FlushPeriod := NullDurationFrom 30000000000\<rparr>)
            | Some t \<Rightarrow> UnmarshalText simpleLibs
                (FlushPeriod (NewConfig\<lparr>FlushPeriod := NullDurationFrom 30000000000\<rparr>)) t
                = (NullDurationFrom 120000000000, None)"
    by (simp add: simple_dur_2m)
  have fl0: "case Map.empty ''K6_ELASTICSEARCH_FLUSH_PERIOD'' of
              None \<Rightarrow> FlushPeriod NewConfig = FlushPeriod NewConfig
            | Some t \<Rightarrow> UnmarshalText simpleLibs (FlushPeriod NewConfig) t
                = (FlushPeriod NewConfig, None)"
    by simp
  note a = environment_layer [where env = "[''K6_ELASTICSEARCH_FLUSH_PERIOD'' \<mapsto> ''2m'',
      ''K6_ELASTICSEARCH_URL'' \<mapsto> ''http://env:9200'']", OF simple_acc_flush_doc fl]
  note b = environment_layer [where env = Map.empty, OF simple_acc_none fl0,
      THEN conjunct2, THEN conjunct2]
  show ?thesis
    using a b simple_acc_flush_doc simple_dur_2m simple_flush_doc simple_acc_none
    by (simp add: NewConfig_def NullDurationFrom_def)
qed

text \<open>
  Without the condition on the flush-period variable the five overrides do not hold for
  every environment: when the variable's text is rejected, the resolution returns before
  the string variables are read, and a url that is present in the environment is not
  written.
\<close>

theorem env_strings_not_applied:
  "[''K6_ELASTICSEARCH_FLUSH_PERIOD'' \<mapsto> ''abc'', ''K6_ELASTICSEARCH_URL'' \<mapsto> ''http://env:9200'']
      ''K6_ELASTICSEARCH_URL'' = Some ''http://env:9200''
   \<and> GetConsolidatedConfig simpleLibs None
        [''K6_ELASTICSEARCH_FLUSH_PERIOD'' \<mapsto> ''abc'', ''K6_ELASTICSEARCH_URL'' \<mapsto> ''http://env:9200''] []
       = (NewConfig, Some (Error ''invalid duration''))
   \<and> Url NewConfig = StringFrom ''http://localhost:9200''
   \<and> Url NewConfig \<noteq> StringFrom ''http://env:9200''"
  by code_simp

subsection \<open>The inline layer\<close>

text \<open>
  C9. For an inline argument that the parser accepts, \<open>ParseArg\<close> depends on the six
  recognized keys only: two accepted arguments whose mappings agree on the six keys
  give the same configuration and the same error, whatever other keys they hold, and an
  argument whose mapping holds none of the six keys gives the zero configuration (no
  field set) and no error.
\<close>

theorem ParseArg_ignores_unrecognized:
  assumes "strvals_Parse X arg = Inr params"
  shows "(strvals_Parse X arg' = Inr params' \<and> (\<forall>k\<in>recognizedKeys. params k = params' k) \<longrightarrow>
           ParseArg X arg = ParseArg X arg')
       \<and> (dom params \<inter> recognizedKeys = {} \<longrightarrow> ParseArg X arg = (zeroConfig, None))"
proof (intro conjI impI)
  assume "strvals_Parse X arg' = Inr params' \<and> (\<forall>k\<in>recognizedKeys. params k = params' k)"
  then show "ParseArg X arg = ParseArg X arg'"
    using assms by (intro ParseArg_params [of X arg params arg' params'])
      (simp_all add: recognizedKeys_def)
next
  assume "dom params \<inter> recognizedKeys = {}"
  then have "\<forall>k\<in>recognizedKeys. params k = None"
    by (auto simp: dom_def)
  then show "ParseArg X arg = (zeroConfig, None)"
    using assms by (intro ParseArg_no_key [of X arg params]) (simp_all add: recognizedKeys_def)
qed

theorem ParseArg_ignores_unrecognized_witness:
  "strvals_Parse simpleLibs ''user=u,foo=bar''
     = Inr [''user'' \<mapsto> VString ''u'', ''foo'' \<mapsto> VString ''bar'']
   \<and> strvals_Parse simpleLibs ''user=u'' = Inr [''user'' \<mapsto> VString ''u'']
   \<and> map [''user'' \<mapsto> VString ''u'', ''foo'' \<mapsto> VString ''bar'']
         [''url'', ''cloud-id'', ''caCertFile'', ''user'', ''password'', ''flushPeriod'']
       = map [''user'' \<mapsto> VString ''u'']
         [''url'', ''cloud-id'', ''caCertFile'', ''user'', ''password'', ''flushPeriod'']
   \<and> ParseArg simpleLibs ''user=u,foo=bar'' = ParseArg simpleLibs ''user=u''
   \<and> ParseArg simpleLibs ''user=u,foo=bar'' = (zeroConfig\<lparr>User := StringFrom ''u''\<rparr>, None)
   \<and> strvals_Parse simpleLibs ''foo=bar'' = Inr [''foo'' \<mapsto> VString ''bar'']
   \<and> dom [''foo'' \<mapsto> VString ''bar''] \<inter> recognizedKeys = {}
   \<and> ParseArg simpleLibs ''foo=bar'' = (zeroConfig, None)"
proof -
  have k: "\<forall>k\<in>recognizedKeys. [''user'' \<mapsto> VString ''u'', ''foo'' \<mapsto> VString ''bar''] k
          = [''user'' \<mapsto> VString ''u''] k"
    by (simp add: recognizedKeys_def)
  have d: "dom [''foo'' \<mapsto> VString ''bar''] \<inter> recognizedKeys = {}"
    by (simp add: recognizedKeys_def)
  have u: "ParseArg simpleLibs ''user=u'' = (zeroConfig\<lparr>User := StringFrom ''u''\<rparr>, None)"
    by (simp add: ParseArg_def simple_Parse_user)
  note a = ParseArg_ignores_unrecognized [OF simple_Parse_user_foo, THEN conjunct1, rule_format,
      OF conjI [OF simple_Parse_user k]]
  note b = ParseArg_ignores_unrecognized [OF simple_Parse_foo, THEN conjunct2, rule_format, OF d]
  show ?thesis
    using a b k d u simple_Parse_user_foo simple_Parse_user simple_Parse_foo
    by (intro conjI) simp_all
qed

text \<open>
  C5, as the code has it. \<open>ParseArg\<close> reads the flush period only from a value that
  is a string. Let the parser accept the non-empty argument with a string \<open>v\<close> under the
  key flushPeriod. If \<open>v\<close> is valid duration text, that is \<open>UnmarshalText\<close> on the zero
  receiver of \<open>ParseArg\<close> returns no error and the present duration \<open>d\<close>, then
  \<open>ParseArg\<close> succeeds with the flush period \<open>d\<close>, and so does the resolution whenever the
  layers before the inline one succeed. If \<open>UnmarshalText\<close> returns an error, the
  resolution returns an error, which is that error when the earlier layers succeeded,
  and its configuration is exactly the accumulator before the inline layer (the
  configuration of the resolution of the same document and environment with the empty
  argument, which skips the inline layer): what \<open>ParseArg\<close> had built is dropped.
\<close>

theorem inline_flushPeriod:
  assumes arg: "arg \<noteq> []" "strvals_Parse X arg = Inr params"
      "asString (params ''flushPeriod'') = Some v"
  shows "(UnmarshalText X zeroDuration v = (\<lparr>Value = d, Valid = True\<rparr>, None) \<longrightarrow>
            snd (ParseArg X arg) = None
            \<and> FlushPeriod (fst (ParseArg X arg)) = \<lparr>Value = d, Valid = True\<rparr>
            \<and> (GetConsolidatedConfig X jsonRawConf env [] = (acc, None) \<longrightarrow>
                 snd (GetConsolidatedConfig X jsonRawConf env arg) = None
                 \<and> FlushPeriod (fst (GetConsolidatedConfig X jsonRawConf env arg))
                     = \<lparr>Value = d, Valid = True\<rparr>))
       \<and> (UnmarshalText X zeroDuration v = (d', Some err) \<longrightarrow>
            snd (GetConsolidatedConfig X jsonRawConf env arg) \<noteq> None
            \<and> fst (GetConsolidatedConfig X jsonRawConf env arg)
                = fst (GetConsolidatedConfig X jsonRawConf env [])
            \<and> (snd (GetConsolidatedConfig X jsonRawConf env []) = None \<longrightarrow>
                 snd (GetConsolidatedConfig X jsonRawConf env arg) = Some err))"
proof (intro conjI impI)
  assume ok: "UnmarshalText X zeroDuration v = (\<lparr>Value = d, Valid = True\<rparr>, None)"
  show p1: "snd (ParseArg X arg) = None"
    and p2: "FlushPeriod (fst (ParseArg X arg)) = \<lparr>Value = d, Valid = True\<rparr>"
    using ParseArg_flushPeriod [OF arg(2,3) ok] by simp_all
  assume acc: "GetConsolidatedConfig X jsonRawConf env [] = (acc, None)"
  have "GetConsolidatedConfig X jsonRawConf env arg = (Apply acc (fst (ParseArg X arg)), None)"
    using acc arg(1) p1
    by (cases "ParseArg X arg")
      (simp add: GetConsolidatedConfig_before_inline [of X jsonRawConf env arg]
        andThen_simps argLayer_def)
  then show "snd (GetConsolidatedConfig X jsonRawConf env arg) = None"
    and "FlushPeriod (fst (GetConsolidatedConfig X jsonRawConf env arg))
          = \<lparr>Value = d, Valid = True\<rparr>"
    using p2 by (simp_all add: Apply_fields)
next
  assume bad: "UnmarshalText X zeroDuration v = (d', Some err)"
  obtain argConf where p: "ParseArg X arg = (argConf, Some err)"
    using ParseArg_flushPeriod(1) [OF arg(2,3) bad] by (cases "ParseArg X arg") simp
  obtain r e where r: "GetConsolidatedConfig X jsonRawConf env [] = (r, e)"
    by (cases "GetConsolidatedConfig X jsonRawConf env []")
  have g: "GetConsolidatedConfig X jsonRawConf env arg
      = (r, case e of None \<Rightarrow> Some err | Some e' \<Rightarrow> Some e')"
    using r arg(1) p
    by (cases e)
      (simp_all add: GetConsolidatedConfig_before_inline [of X jsonRawConf env arg]
        andThen_simps argLayer_def)
  show "snd (GetConsolidatedConfig X jsonRawConf env arg) \<noteq> None"
    using g by (cases e) simp_all
  show "fst (GetConsolidatedConfig X jsonRawConf env arg)
      = fst (GetConsolidatedConfig X jsonRawConf env [])"
    using g r by simp
  assume "snd (GetConsolidatedConfig X jsonRawConf env []) = None"
  then show "snd (GetConsolidatedConfig X jsonRawConf env arg) = Some err"
    using g r by simp
qed

theorem inline_flushPeriod_witness:
  "''flushPeriod=5s'' \<noteq> []
   \<and> strvals_Parse simpleLibs ''flushPeriod=5s'' = Inr [''flushPeriod'' \<mapsto> VString ''5s'']
   \<and> asString ([''flushPeriod'' \<mapsto> VString ''5s''] ''flushPeriod'') = Some ''5s''
   \<and> UnmarshalText simpleLibs zeroDuration ''5s'' = (\<lparr>Value = 5000000000, Valid = True\<rparr>, None)
   \<and> GetConsolidatedConfig simpleLibs (Some urlDocument) [''K6_ELASTICSEARCH_USER'' \<mapsto> ''envuser''] []
     = (NewConfig\<lparr>Url := StringFrom ''http://doc:9200'', User := StringFrom ''envuser''\<rparr>, None)
   \<and> snd (GetConsolidatedConfig simpleLibs (Some urlDocument)
          [''K6_ELASTICSEARCH_USER'' \<mapsto> ''envuser''] ''flushPeriod=5s'') = None
   \<and> FlushPeriod (fst (GetConsolidatedConfig simpleLibs (Some urlDocument)
          [''K6_ELASTICSEARCH_USER'' \<mapsto> ''envuser''] ''flushPeriod=5s''))
       = \<lparr>Value = 5000000000, Valid = True\<rparr>
   \<and> ''flushPeriod=notaduration'' \<noteq> []
   \<and> strvals_Parse simpleLibs ''flushPeriod=notaduration''
       = Inr [''flushPeriod'' \<mapsto> VString ''notaduration'']
   \<and> asString ([''flushPeriod'' \<mapsto> VString ''notaduration''] ''flushPeriod'')
       = Some ''notaduration''
   \<and> UnmarshalText simpleLibs zeroDuration ''notaduration''
       = (zeroDuration, Some (Error ''invalid duration''))
   \<and> GetConsolidatedConfig simpleLibs (Some urlDocument)
          [''K6_ELASTICSEARCH_USER'' \<mapsto> ''envuser''] ''flushPeriod=notaduration''
       = (NewConfig\<lparr>Url := StringFrom ''http://doc:9200'', User := StringFrom ''envuser''\<rparr>,
          Some (Error ''invalid duration''))"
proof -
  have s1: "asString ([''flushPeriod'' \<mapsto> VString ''5s''] ''flushPeriod'') = Some ''5s''"
    and s2: "asString ([''flushPeriod'' \<mapsto> VString ''notaduration''] ''flushPeriod'')
      = Some ''notaduration''"
    and n1: "''flushPeriod=5s'' \<noteq> []" and n2: "''flushPeriod=notaduration'' \<noteq> []"
    by simp_all
  note good = inline_flushPeriod [OF n1 simple_Parse_flush5s s1,
      where d = "5000000000" and jsonRawConf = "Some urlDocument"
        and env = "[''K6_ELASTICSEARCH_USER'' \<mapsto> ''envuser'']",
      THEN conjunct1, rule_format, OF simple_dur_5s,
      THEN conjunct2, THEN conjunct2, rule_format, OF simple_acc_doc_env]
  note bad = inline_flushPeriod [OF n2 simple_Parse_flushbad s2,
      where jsonRawConf = "Some urlDocument"
        and env = "[''K6_ELASTICSEARCH_USER'' \<mapsto> ''envuser'']",
      THEN conjunct2, rule_format, OF simple_dur_bad]
  have b: "GetConsolidatedConfig simpleLibs (Some urlDocument)
          [''K6_ELASTICSEARCH_USER'' \<mapsto> ''envuser''] ''flushPeriod=notaduration''
       = (NewConfig\<lparr>Url := StringFrom ''http://doc:9200'', User := StringFrom ''envuser''\<rparr>,
          Some (Error ''invalid duration''))"
    using bad simple_acc_doc_env
    by (cases "GetConsolidatedConfig simpleLibs (Some urlDocument)
          [''K6_ELASTICSEARCH_USER'' \<mapsto> ''envuser''] ''flushPeriod=notaduration''") simp
  show ?thesis
    using good b s1 s2 n1 n2 simple_acc_doc_env simple_Parse_flush5s simple_Parse_flushbad
      simple_dur_5s simple_dur_bad
    by (intro conjI) blast+
qed

text \<open>
  Without the condition that the value is a string, neither half holds for every
  argument the parser accepts. The parser types the value of flushPeriod=500 as an
  integer and that of flushPeriod=true as a boolean, and \<open>ParseArg\<close> passes over a value
  that is not a string: the text 500 is valid duration text (500 milliseconds), yet the
  flush period stays the accumulated one second; the text true is not duration text, yet
  the resolution returns no error.
\<close>

theorem inline_flushPeriod_not_text:
  "UnmarshalText simpleLibs zeroDuration ''500'' = (\<lparr>Value = 500000000, Valid = True\<rparr>, None)
   \<and> GetConsolidatedConfig simpleLibs None Map.empty ''flushPeriod=500'' = (NewConfig, None)
   \<and> FlushPeriod NewConfig = \<lparr>Value = 1000000000, Valid = True\<rparr>
   \<and> UnmarshalText simpleLibs zeroDuration ''true''
       = (zeroDuration, Some (Error ''invalid duration''))
   \<and> GetConsolidatedConfig simpleLibs None Map.empty ''flushPeriod=true'' = (NewConfig, None)"
  by code_simp

subsection \<open>The four layers together\<close>

text \<open>
  C2. The layers are applied in the order defaults, document, environment, inline
  argument, a later one winning over an earlier one. For a resolution of a document, an
  environment and a non-empty inline argument that succeeds, each string field of the
  result is the inline argument's when it sets the field, else the environment
  variable's when it is present, else the document's when it sets the field, else the
  default; the flush period is the inline argument's when it sets it, else the
  environment text parsed onto the document's (or else the default) flush period, else
  the document's, else the default. In particular, when the decoder reads the document
  \<open>urlDocument\<close> as the one field url = http://doc:9200 and the parser reads the
  argument password=secret as the one string entry password, the resolution under the
  environment K6_ELASTICSEARCH_USER = envuser returns no error, url = http://doc:9200,
  user = envuser, password = secret, the flush period one second, and no cloud-id and no
  CA certificate.
\<close>

theorem resolution_precedence:
  "(GetConsolidatedConfig X (Some raw) env arg = (result, None)
      \<and> json_Unmarshal X raw zeroConfig = (jsonConf, e1)
      \<and> arg \<noteq> [] \<and> ParseArg X arg = (argConf, e2) \<longrightarrow>
    Url result =
      (if Valid (Url argConf) then Url argConf
       else case env ''K6_ELASTICSEARCH_URL'' of
              Some v \<Rightarrow> StringFrom v
            | None \<Rightarrow> if Valid (Url jsonConf) then Url jsonConf else Url NewConfig)
    \<and> CloudID result =
      (if Valid (CloudID argConf) then CloudID argConf
       else case env ''K6_ELASTICSEARCH_CLOUD_ID'' of
              Some v \<Rightarrow> StringFrom v
            | None \<Rightarrow> if Valid (CloudID jsonConf) then CloudID jsonConf else CloudID NewConfig)
    \<and> CACert result =
      (if Valid (CACert argConf) then CACert argConf
       else case env ''K6_ELASTICSEARCH_CA_CERT_FILE'' of
              Some v \<Rightarrow> StringFrom v
            | None \<Rightarrow> if Valid (CACert jsonConf) then CACert jsonConf else CACert NewConfig)
    \<and> User result =
      (if Valid (User argConf) then User argConf
       else case env ''K6_ELASTICSEARCH_USER'' of
              Some v \<Rightarrow> StringFrom v
            | None \<Rightarrow> if Valid (User jsonConf) then User jsonConf else User NewConfig)
    \<and> Password result =
      (if Valid (Password argConf) then Password argConf
       else case env ''K6_ELASTICSEARCH_PASSWORD'' of
              Some v \<Rightarrow> StringFrom v
            | None \<Rightarrow> if Valid (Password jsonConf) then Password jsonConf else Password NewConfig)
    \<and> FlushPeriod result =
      (if Valid (FlushPeriod argConf) then FlushPeriod argConf
       else case env ''K6_ELASTICSEARCH_FLUSH_PERIOD'' of
              Some t \<Rightarrow>
                fst (UnmarshalText X
                  (if Valid (FlushPeriod jsonConf) then FlushPeriod jsonConf
                   else FlushPeriod NewConfig) t)
            | None \<Rightarrow>
                if Valid (FlushPeriod jsonConf) then FlushPeriod jsonConf
                else FlushPeriod NewConfig))
   \<and> (json_Unmarshal X urlDocument zeroConfig
         = (zeroConfig\<lparr>Url := StringFrom ''http://doc:9200''\<rparr>, None)
       \<and> strvals_Parse X ''password=secret'' = Inr [''password'' \<mapsto> VString ''secret''] \<longrightarrow>
      GetConsolidatedConfig X (Some urlDocument) [''K6_ELASTICSEARCH_USER'' \<mapsto> ''envuser'']
          ''password=secret''
        = (\<lparr>Url = StringFrom ''http://doc:9200'', CloudID = NewString [] False,
            CACert = NewString [] False, User = StringFrom ''envuser'',
            Password = StringFrom ''secret'', FlushPeriod = NullDurationFrom Second\<rparr>, None))"
proof (intro conjI impI)
  assume h: "GetConsolidatedConfig X (Some raw) env arg = (result, None)
      \<and> json_Unmarshal X raw zeroConfig = (jsonConf, e1)
      \<and> arg \<noteq> [] \<and> ParseArg X arg = (argConf, e2)"
  from h obtain r3 where r3: "andThen (andThen (documentLayer X (Some raw) NewConfig)
        (envFlushPeriod X env)) (\<lambda>result. (envStrings env result, None)) = (r3, None)"
    and a: "argLayer X arg r3 = (result, None)"
    unfolding GetConsolidatedConfig_def by (blast dest: andThen_ok)
  from andThen_ok [OF r3] obtain r2 where r2: "andThen (documentLayer X (Some raw) NewConfig)
        (envFlushPeriod X env) = (r2, None)" and s: "r3 = envStrings env r2"
    by auto
  from r2 obtain acc where d: "documentLayer X (Some raw) NewConfig = (acc, None)"
    and f: "envFlushPeriod X env acc = (r2, None)"
    by (blast dest: andThen_ok)
  have acc: "acc = Apply NewConfig jsonConf"
    using documentLayer_ok(2) [OF d] h by blast
  have res: "result = Apply (envStrings env r2) argConf"
    using argLayer_ok(2) [OF a] h s by blast
  note flds = res acc Apply_fields envStrings_fields envFlushPeriod_ok [OF f]
  show "Url result =
      (if Valid (Url argConf) then Url argConf
       else case env ''K6_ELASTICSEARCH_URL'' of
              Some v \<Rightarrow> StringFrom v
            | None \<Rightarrow> if Valid (Url jsonConf) then Url jsonConf else Url NewConfig)"
    by (simp add: flds split: option.splits)
  show "CloudID result =
      (if Valid (CloudID argConf) then CloudID argConf
       else case env ''K6_ELASTICSEARCH_CLOUD_ID'' of
              Some v \<Rightarrow> StringFrom v
            | None \<Rightarrow> if Valid (CloudID jsonConf) then CloudID jsonConf else CloudID NewConfig)"
    by (simp add: flds split: option.splits)
  show "CACert result =
      (if Valid (CACert argConf) then CACert argConf
       else case env ''K6_ELASTICSEARCH_CA_CERT_FILE'' of
              Some v \<Rightarrow> StringFrom v
            | None \<Rightarrow> if Valid (CACert jsonConf) then CACert jsonConf else CACert NewConfig)"
    by (simp add: flds split: option.splits)
  show "User result =
      (if Valid (User argConf) then User argConf
       else case env ''K6_ELASTICSEARCH_USER'' of
              Some v \<Rightarrow> StringFrom v
            | None \<Rightarrow> if Valid (User jsonConf) then User jsonConf else User NewConfig)"
    by (simp add: flds split: option.splits)
  show "Password result =
      (if Valid (Password argConf) then Password argConf
       else case env ''K6_ELASTICSEARCH_PASSWORD'' of
              Some v \<Rightarrow> StringFrom v
            | None \<Rightarrow> if Valid (Password jsonConf) then Password jsonConf else Password NewConfig)"
    by (simp add: flds split: option.splits)
  show "FlushPeriod result =
      (if Valid (FlushPeriod argConf) then FlushPeriod argConf
       else case env ''K6_ELASTICSEARCH_FLUSH_PERIOD'' of
              Some t \<Rightarrow>
                fst (UnmarshalText X
                  (if Valid (FlushPeriod jsonConf) then FlushPeriod jsonConf
                   else FlushPeriod NewConfig) t)
            | None \<Rightarrow>
                if Valid (FlushPeriod jsonConf) then FlushPeriod jsonConf
                else FlushPeriod NewConfig)"
    by (simp add: flds split: option.splits)
next
  assume h: "json_Unmarshal X urlDocument zeroConfig
         = (zeroConfig\<lparr>Url := StringFrom ''http://doc:9200''\<rparr>, None)
       \<and> strvals_Parse X ''password=secret'' = Inr [''password'' \<mapsto> VString ''secret'']"
  have d: "documentLayer X (Some urlDocument) NewConfig
      = (NewConfig\<lparr>Url := StringFrom ''http://doc:9200''\<rparr>, None)"
    using h by (simp add: documentLayer_def Apply_def zeroConfig_def zeroString_def
        zeroDuration_def StringFrom_def NewString_def)
  have p: "ParseArg X ''password=secret'' = (zeroConfig\<lparr>Password := StringFrom ''secret''\<rparr>, None)"
    using h by (simp add: ParseArg_def)
  show "GetConsolidatedConfig X (Some urlDocument) [''K6_ELASTICSEARCH_USER'' \<mapsto> ''envuser'']
          ''password=secret''
        = (\<lparr>Url = StringFrom ''http://doc:9200'', CloudID = NewString [] False,
            CACert = NewString [] False, User = StringFrom ''envuser'',
            Password = StringFrom ''secret'', FlushPeriod = NullDurationFrom Second\<rparr>, None)"
    by (simp add: GetConsolidatedConfig_after_document [OF d] envFlushPeriod_def andThen_simps
        envStrings_def argLayer_def p Apply_def zeroConfig_def zeroString_def zeroDuration_def
        StringFrom_def NewString_def NewConfig_def defaultFlushPeriod_def)
qed

theorem resolution_precedence_witness:
  "GetConsolidatedConfig simpleLibs (Some urlDocument) [''K6_ELASTICSEARCH_USER'' \<mapsto> ''envuser'']
       ''password=secret''
     = (\<lparr>Url = StringFrom ''http://doc:9200'', CloudID = NewString [] False,
         CACert = NewString [] False, User = StringFrom ''envuser'',
         Password = StringFrom ''secret'', FlushPeriod = NullDurationFrom Second\<rparr>, None)
   \<and> json_Unmarshal simpleLibs urlDocument zeroConfig
       = (zeroConfig\<lparr>Url := StringFrom ''http://doc:9200''\<rparr>, None)
   \<and> ''password=secret'' \<noteq> []
   \<and> ParseArg simpleLibs ''password=secret''
       = (zeroConfig\<lparr>Password := StringFrom ''secret''\<rparr>, None)
   \<and> strvals_Parse simpleLibs ''password=secret'' = Inr [''password'' \<mapsto> VString ''secret'']
   \<and> Url (zeroConfig\<lparr>Url := StringFrom ''http://doc:9200''\<rparr>) = StringFrom ''http://doc:9200''
   \<and> Password (zeroConfig\<lparr>Password := StringFrom ''secret''\<rparr>) = StringFrom ''secret''"
proof -
  have p: "ParseArg simpleLibs ''password=secret''
       = (zeroConfig\<lparr>Password := StringFrom ''secret''\<rparr>, None)"
    by (simp add: ParseArg_def simple_Parse_password)
  have n: "''password=secret'' \<noteq> []"
    by simp
  note ex = resolution_precedence [of simpleLibs, THEN conjunct2, rule_format,
      OF conjI [OF simple_url_doc simple_Parse_password]]
  note gen = resolution_precedence [of simpleLibs urlDocument
      "[''K6_ELASTICSEARCH_USER'' \<mapsto> ''envuser'']" "''password=secret''" _ _ None _ None,
      THEN conjunct1, rule_format, OF conjI [OF ex conjI [OF simple_url_doc conjI [OF n p]]]]
  show ?thesis
    using ex gen simple_url_doc p simple_Parse_password by simp
qed

end
